theory Spec2Isabelle
  imports Main
begin

section \<open>Data model of \<^verbatim>\<open>index.js\<close>\<close>

text \<open>
  Text that arrives from a client is a JavaScript string: a sequence of UTF-16 code units,
  and \<^verbatim>\<open>.length\<close> counts code units. A code unit is a natural number here. Text
  that the program itself writes (view names, paths, messages, the two role names) is an
  ASCII literal and stays a \<open>string\<close>.
\<close>

type_synonym jstring = "nat list"

type_synonym oid = nat
type_synonym sid = nat

text \<open>\<^verbatim>\<open>userSchema\<close>: one document of the \<^verbatim>\<open>User\<close> collection.\<close>

record user =
  user_id :: oid
  name :: jstring
  email :: jstring
  password :: jstring
  user_type :: string

text \<open>
  The object stored under \<^verbatim>\<open>req.session.user\<close>. Signup stores \<^verbatim>\<open>{ name }\<close>, login
  stores \<^verbatim>\<open>{ _id, name, email, user_type }\<close>; a property that the object does not have
  reads as \<^verbatim>\<open>undefined\<close>, which is \<open>None\<close>.
\<close>

record session_user =
  s_id :: "oid option"
  s_name :: jstring
  s_email :: "jstring option"
  s_user_type :: "string option"

text \<open>
  The server's state: the \<^verbatim>\<open>User\<close> collection in insertion order, the session store
  (a session is saved only once \<^verbatim>\<open>req.session.user\<close> has been assigned, since
  \<^verbatim>\<open>saveUninitialized\<close> is false, so a stored session always carries a user object), and
  the lines written with \<^verbatim>\<open>console.error\<close>. The one-hour expiry of stored sessions is
  not part of the model.
\<close>

record state =
  users :: "user list"
  sessions :: "sid \<rightharpoonup> session_user"
  errlog :: "(string \<times> string) list"

text \<open>
  What one request brings along and what the environment chooses while it is handled:
  the session id in the client's signed cookie, the id that the session middleware
  generates when the cookie names no stored session, the salt that \<^verbatim>\<open>bcrypt.hash\<close>
  draws, and the error (if any) that the session store reports to \<^verbatim>\<open>destroy\<close>.
\<close>

record ctx =
  cookie :: "sid option"
  new_sid :: sid
  salt :: nat
  destroy_err :: "string option"

text \<open>
  The libraries that the handlers call and whose code is not part of the repository:
  \<^verbatim>\<open>bcrypt.hash(password, rounds)\<close> (with the salt made explicit),
  \<^verbatim>\<open>bcrypt.compare(password, hash)\<close>, the test behind Joi's \<^verbatim>\<open>email()\<close> rule, and
  Mongoose's cast of a string to the \<^verbatim>\<open>ObjectId\<close> of an \<^verbatim>\<open>_id\<close> filter, which has
  no value on a string that is not an ObjectId.
\<close>

record lib =
  bcrypt_hash :: "jstring \<Rightarrow> nat \<Rightarrow> nat \<Rightarrow> jstring"
  bcrypt_compare :: "jstring \<Rightarrow> jstring \<Rightarrow> bool"
  joi_email :: "jstring \<Rightarrow> bool"
  cast_object_id :: "jstring \<Rightarrow> oid option"

text \<open>
  A field of \<^verbatim>\<open>req.body\<close>. With \<^verbatim>\<open>express.urlencoded({ extended: true })\<close> a field is
  absent, a string, or an array or object (\<open>Other\<close>).
\<close>

datatype field = Undefined | Str jstring | Other

datatype joi_error =
    AnyRequired string
  | StringBase string
  | StringEmpty string
  | StringAlphanum string
  | StringMin string nat
  | StringMax string nat
  | StringEmail string

text \<open>The \<^verbatim>\<open>error\<close> local of a form view: a literal of the program or Joi's message.\<close>

datatype message = Text string | Joi joi_error

datatype locals =
    ErrorL "message option"
  | UsersL "user list"
  | MembersL jstring "string list"

datatype response =
    Render string locals
  | Redirect string
  | StatusSend nat string

text \<open>
  A rejected promise that no handler catches: the request gets no response and the
  stores are as they were. \<^verbatim>\<open>save\<close> rejects on a duplicate key, \<^verbatim>\<open>updateOne\<close> on an
  \<^verbatim>\<open>_id\<close> that cannot be cast.
\<close>

datatype error = DuplicateKey | CastError

section \<open>Input validation\<close>

text \<open>JavaScript's \<^verbatim>\<open>!x\<close> on a body field: true for \<^verbatim>\<open>undefined\<close> and for the empty string.\<close>

definition falsy :: "field \<Rightarrow> bool" where
  "falsy f = (case f of Undefined \<Rightarrow> True | Str s \<Rightarrow> s = [] | Other \<Rightarrow> False)"

definition alnum_unit :: "nat \<Rightarrow> bool" where
  "alnum_unit c = ((48 \<le> c \<and> c \<le> 57) \<or> (65 \<le> c \<and> c \<le> 90) \<or> (97 \<le> c \<and> c \<le> 122))"

definition joi_alphanum :: "string \<Rightarrow> jstring \<Rightarrow> joi_error option" where
  "joi_alphanum label s = (if list_all alnum_unit s then None else Some (StringAlphanum label))"

definition joi_min :: "nat \<Rightarrow> string \<Rightarrow> jstring \<Rightarrow> joi_error option" where
  "joi_min n label s = (if n \<le> length s then None else Some (StringMin label n))"

definition joi_max :: "nat \<Rightarrow> string \<Rightarrow> jstring \<Rightarrow> joi_error option" where
  "joi_max n label s = (if length s \<le> n then None else Some (StringMax label n))"

definition joi_email_rule :: "lib \<Rightarrow> string \<Rightarrow> jstring \<Rightarrow> joi_error option" where
  "joi_email_rule l label s = (if joi_email l s then None else Some (StringEmail label))"

text \<open>The rules of a key run in the order in which the schema chains them; the first failure is reported.\<close>

fun first_error :: "(string \<Rightarrow> jstring \<Rightarrow> joi_error option) list \<Rightarrow> string \<Rightarrow> jstring \<Rightarrow> joi_error option" where
  "first_error [] label s = None"
| "first_error (r # rs) label s =
     (case r label s of Some e \<Rightarrow> Some e | None \<Rightarrow> first_error rs label s)"

text \<open>\<^verbatim>\<open>Joi.string(). ... .required()\<close> for the key \<open>label\<close>.\<close>

definition joi_string :: "(string \<Rightarrow> jstring \<Rightarrow> joi_error option) list \<Rightarrow> string \<Rightarrow> field \<Rightarrow> joi_error + jstring" where
  "joi_string rules label f =
     (case f of
        Undefined \<Rightarrow> Inl (AnyRequired label)
      | Other \<Rightarrow> Inl (StringBase label)
      | Str s \<Rightarrow>
          if s = [] then Inl (StringEmpty label)
          else (case first_error rules label s of Some e \<Rightarrow> Inl e | None \<Rightarrow> Inr s))"

text \<open>
  The schema of \<^verbatim>\<open>POST /signup\<close>, validated key by key in the order of the schema; with
  Joi's default \<^verbatim>\<open>abortEarly\<close> the first error is \<^verbatim>\<open>error.details[0]\<close>.
\<close>

definition signup_schema :: "lib \<Rightarrow> field \<Rightarrow> field \<Rightarrow> field \<Rightarrow> joi_error + (jstring \<times> jstring \<times> jstring)" where
  "signup_schema l nm em pw =
     (case joi_string [joi_alphanum, joi_min 2, joi_max 30] ''name'' nm of
        Inl e \<Rightarrow> Inl e
      | Inr n \<Rightarrow>
          (case joi_string [joi_email_rule l] ''email'' em of
             Inl e \<Rightarrow> Inl e
           | Inr a \<Rightarrow>
               (case joi_string [joi_min 5, joi_max 50] ''password'' pw of
                  Inl e \<Rightarrow> Inl e
                | Inr p \<Rightarrow> Inr (n, a, p))))"

definition login_schema :: "lib \<Rightarrow> field \<Rightarrow> field \<Rightarrow> joi_error + (jstring \<times> jstring)" where
  "login_schema l em pw =
     (case joi_string [joi_email_rule l] ''email'' em of
        Inl e \<Rightarrow> Inl e
      | Inr a \<Rightarrow>
          (case joi_string [joi_min 5, joi_max 50] ''password'' pw of
             Inl e \<Rightarrow> Inl e
           | Inr p \<Rightarrow> Inr (a, p)))"

section \<open>The stores\<close>

text \<open>\<^verbatim>\<open>User.findOne({ email })\<close>: the first document with that email.\<close>

definition find_one :: "user list \<Rightarrow> jstring \<Rightarrow> user option" where
  "find_one us a = find (\<lambda>u. email u = a) us"

text \<open>The identifier that a new document receives: one that no stored document has.\<close>

definition new_oid :: "user list \<Rightarrow> oid" where
  "new_oid us = Suc (foldr max (map user_id us) 0)"

text \<open>\<^verbatim>\<open>newUser.save()\<close>: the unique index on \<^verbatim>\<open>email\<close> rejects a second document with the same email.\<close>

definition save :: "user list \<Rightarrow> user \<Rightarrow> error + user list" where
  "save us u = (if find_one us (email u) \<noteq> None then Inl DuplicateKey else Inr (us @ [u]))"

text \<open>
  \<^verbatim>\<open>User.updateOne({ _id: id }, { user_type: r })\<close>: the first document with that
  identifier gets the role \<open>r\<close>; without such a document nothing is written.
\<close>

fun update_one :: "user list \<Rightarrow> oid \<Rightarrow> string \<Rightarrow> user list" where
  "update_one [] i r = []"
| "update_one (u # us) i r =
     (if user_id u = i then u\<lparr>user_type := r\<rparr> # us else u # update_one us i r)"

text \<open>\<^verbatim>\<open>req.session.user\<close>: the user object of the stored session that the cookie names.\<close>

definition req_session_user :: "state \<Rightarrow> ctx \<Rightarrow> session_user option" where
  "req_session_user st cx = (case cookie cx of None \<Rightarrow> None | Some s \<Rightarrow> sessions st s)"

text \<open>\<^verbatim>\<open>req.sessionID\<close>: the cookie's id when it names a stored session, a generated id otherwise.\<close>

definition session_id :: "state \<Rightarrow> ctx \<Rightarrow> sid" where
  "session_id st cx =
     (case cookie cx of
        None \<Rightarrow> new_sid cx
      | Some s \<Rightarrow> (case sessions st s of None \<Rightarrow> new_sid cx | Some _ \<Rightarrow> s))"

text \<open>\<^verbatim>\<open>req.session.user = su\<close>, saved to the store when the response ends.\<close>

definition set_session_user :: "state \<Rightarrow> ctx \<Rightarrow> session_user \<Rightarrow> state" where
  "set_session_user st cx su = st\<lparr>sessions := (sessions st)(session_id st cx \<mapsto> su)\<rparr>"

text \<open>
  \<^verbatim>\<open>req.session.destroy(cb)\<close>: the store deletes the session and calls back, with an
  error when the deletion failed (the store is then as it was).
\<close>

definition session_destroy :: "state \<Rightarrow> ctx \<Rightarrow> state" where
  "session_destroy st cx =
     (case destroy_err cx of
        None \<Rightarrow> st\<lparr>sessions := (sessions st)(session_id st cx := None)\<rparr>
      | Some e \<Rightarrow> st)"

section \<open>Route handlers\<close>

definition signup_post :: "lib \<Rightarrow> state \<Rightarrow> ctx \<Rightarrow> field \<Rightarrow> field \<Rightarrow> field \<Rightarrow> error + (state \<times> response)" where
  "signup_post l st cx nm em pw =
     (if falsy nm \<or> falsy em \<or> falsy pw then
        Inr (st, Render ''signup'' (ErrorL (Some (Text ''Please fill in all fields.''))))
      else
        (case signup_schema l nm em pw of
           Inl e \<Rightarrow> Inr (st, Render ''signup'' (ErrorL (Some (Joi e))))
         | Inr (n, a, p) \<Rightarrow>
             (let hashedPassword = bcrypt_hash l p 10 (salt cx);
                  newUser = \<lparr>user_id = new_oid (users st), name = n, email = a,
                             password = hashedPassword, user_type = ''user''\<rparr>
              in case save (users st) newUser of
                   Inl err \<Rightarrow> Inl err
                 | Inr us \<Rightarrow>
                     Inr (set_session_user (st\<lparr>users := us\<rparr>) cx
                            \<lparr>s_id = None, s_name = n, s_email = None, s_user_type = None\<rparr>,
                          Redirect ''/members''))))"

definition login_post :: "lib \<Rightarrow> state \<Rightarrow> ctx \<Rightarrow> field \<Rightarrow> field \<Rightarrow> state \<times> response" where
  "login_post l st cx em pw =
     (if falsy em \<or> falsy pw then
        (st, Render ''login'' (ErrorL (Some (Text ''Please enter both email and password.''))))
      else
        (case login_schema l em pw of
           Inl e \<Rightarrow> (st, Render ''login'' (ErrorL (Some (Joi e))))
         | Inr (a, p) \<Rightarrow>
             (case find_one (users st) a of
                None \<Rightarrow> (st, Render ''login'' (ErrorL (Some (Text ''User and password not found.''))))
              | Some u \<Rightarrow>
                  if \<not> bcrypt_compare l p (password u) then
                    (st, Render ''login'' (ErrorL (Some (Text ''User and password not found.''))))
                  else
                    (set_session_user st cx
                       \<lparr>s_id = Some (user_id u), s_name = name u, s_email = Some (email u),
                        s_user_type = Some (user_type u)\<rparr>,
                     Redirect ''/members''))))"

definition admin :: "state \<Rightarrow> ctx \<Rightarrow> response" where
  "admin st cx =
     (case req_session_user st cx of
        None \<Rightarrow> Redirect ''/login''
      | Some su \<Rightarrow>
          if s_user_type su \<noteq> Some ''admin'' then StatusSend 403 ''Not authorized''
          else Render ''admin'' (UsersL (users st)))"

text \<open>
  \<^verbatim>\<open>req.params.id\<close> is the text of the route. The guard comes first; then
  \<^verbatim>\<open>updateOne\<close> casts the text to an ObjectId and rejects when it cannot, in which case
  \<^verbatim>\<open>res.redirect\<close> is not reached.
\<close>

definition promote :: "lib \<Rightarrow> state \<Rightarrow> ctx \<Rightarrow> jstring \<Rightarrow> error + (state \<times> response)" where
  "promote l st cx i =
     (if req_session_user st cx = None
         \<or> Option.bind (req_session_user st cx) s_user_type \<noteq> Some ''admin'' then
        Inr (st, StatusSend 403 ''Not authorized'')
      else
        (case cast_object_id l i of
           None \<Rightarrow> Inl CastError
         | Some k \<Rightarrow> Inr (st\<lparr>users := update_one (users st) k ''admin''\<rparr>, Redirect ''/admin'')))"

definition demote :: "lib \<Rightarrow> state \<Rightarrow> ctx \<Rightarrow> jstring \<Rightarrow> error + (state \<times> response)" where
  "demote l st cx i =
     (if req_session_user st cx = None
         \<or> Option.bind (req_session_user st cx) s_user_type \<noteq> Some ''admin'' then
        Inr (st, StatusSend 403 ''Not authorized'')
      else
        (case cast_object_id l i of
           None \<Rightarrow> Inl CastError
         | Some k \<Rightarrow> Inr (st\<lparr>users := update_one (users st) k ''user''\<rparr>, Redirect ''/admin'')))"

definition members :: "state \<Rightarrow> ctx \<Rightarrow> response" where
  "members st cx =
     (case req_session_user st cx of
        None \<Rightarrow> Redirect ''/''
      | Some su \<Rightarrow> Render ''members'' (MembersL (s_name su) [''Cat1.jpg'', ''Cat2.jpg'', ''Cat3.jpg'']))"

definition logout :: "state \<Rightarrow> ctx \<Rightarrow> state \<times> response" where
  "logout st cx =
     (let st' = session_destroy st cx;
          st'' = (case destroy_err cx of
                    None \<Rightarrow> st'
                  | Some e \<Rightarrow> st'\<lparr>errlog := errlog st' @ [(''Error destroying session:'', e)]\<rparr>)
      in (st'', Redirect ''/''))"

text \<open>
  The state in which a handler that may reject leaves the server, and what the client
  gets from it: a response, or none because of the error.
\<close>

definition state_after :: "state \<Rightarrow> error + (state \<times> response) \<Rightarrow> state" where
  "state_after st r = (case r of Inl e \<Rightarrow> st | Inr (st', _) \<Rightarrow> st')"

definition answer :: "error + (state \<times> response) \<Rightarrow> error + response" where
  "answer r = (case r of Inl e \<Rightarrow> Inl e | Inr (_, x) \<Rightarrow> Inr x)"

section \<open>bcrypt\<close>

text \<open>
  The password enters bcrypt as the UTF-8 encoding of the JavaScript string: one to three
  bytes for a code unit, four for a surrogate pair, and the replacement character for a
  surrogate without its partner.
\<close>

fun utf8 :: "jstring \<Rightarrow> nat list" where
  "utf8 [] = []"
| "utf8 [c] =
     (if c < 128 then [c]
      else if c < 2048 then [192 + c div 64, 128 + c mod 64]
      else if 55296 \<le> c \<and> c < 57344 then [239, 191, 189]
      else [224 + c div 4096, 128 + (c div 64) mod 64, 128 + c mod 64])"
| "utf8 (c # d # cs) =
     (if c < 128 then c # utf8 (d # cs)
      else if c < 2048 then (192 + c div 64) # (128 + c mod 64) # utf8 (d # cs)
      else if 55296 \<le> c \<and> c < 56320 \<and> 56320 \<le> d \<and> d < 57344 then
        (let u = 65536 + (c - 55296) * 1024 + (d - 56320)
         in (240 + u div 262144) # (128 + (u div 4096) mod 64) # (128 + (u div 64) mod 64)
              # (128 + u mod 64) # utf8 cs)
      else if 55296 \<le> c \<and> c < 57344 then 239 # 191 # 189 # utf8 (d # cs)
      else (224 + c div 4096) # (128 + (c div 64) mod 64) # (128 + c mod 64) # utf8 (d # cs))"

text \<open>
  bcrypt as its documentation describes it: only the first 72 bytes of the password are
  used, and the hash string carries the cost and the salt in front of the digest, from
  where \<^verbatim>\<open>compare\<close> takes them to hash the candidate again. The digest function \<open>eks\<close>
  (cost, salt and key to digest) is left open.
\<close>

definition bcrypt_key :: "jstring \<Rightarrow> nat list" where
  "bcrypt_key p = take 72 (utf8 p)"

definition with_bcrypt :: "(nat \<Rightarrow> nat \<Rightarrow> nat list \<Rightarrow> jstring) \<Rightarrow> lib \<Rightarrow> lib" where
  "with_bcrypt eks l =
     l\<lparr>bcrypt_hash := (\<lambda>p r s. r # s # eks r s (bcrypt_key p)),
       bcrypt_compare := (\<lambda>q h. case h of r # s # d \<Rightarrow> eks r s (bcrypt_key q) = d | _ \<Rightarrow> False)\<rparr>"

section \<open>The specification's vocabulary\<close>

text \<open>
  The conditions of the specification on the three signup fields, in its own words: the
  name is alphanumeric of length 2 to 30, the email is well-formed (a non-empty string
  that Joi's email rule accepts), the password has length 5 to 50.
\<close>

definition name_ok :: "field \<Rightarrow> bool" where
  "name_ok f =
     (case f of Str s \<Rightarrow> list_all alnum_unit s \<and> 2 \<le> length s \<and> length s \<le> 30 | _ \<Rightarrow> False)"

definition email_ok :: "lib \<Rightarrow> field \<Rightarrow> bool" where
  "email_ok l f = (case f of Str s \<Rightarrow> s \<noteq> [] \<and> joi_email l s | _ \<Rightarrow> False)"

definition password_ok :: "field \<Rightarrow> bool" where
  "password_ok f = (case f of Str s \<Rightarrow> 5 \<le> length s \<and> length s \<le> 50 | _ \<Rightarrow> False)"

text \<open>Two users differ at most in their role.\<close>

definition same_but_role :: "user \<Rightarrow> user \<Rightarrow> bool" where
  "same_but_role u v =
     (user_id v = user_id u \<and> name v = name u \<and> email v = email u \<and> password v = password u)"

section \<open>Concrete inputs\<close>

definition of_ascii :: "string \<Rightarrow> jstring" where
  "of_ascii s = map of_char s"

text \<open>
  A stand-in for the libraries, to run the handlers on concrete requests: bcrypt with a
  digest that is the key itself, an email rule that asks for an \<open>@\<close>, and a cast that
  reads 24 hexadecimal digits as the number they write.
\<close>

definition hex_digit :: "nat \<Rightarrow> nat option" where
  "hex_digit c =
     (if 48 \<le> c \<and> c \<le> 57 then Some (c - 48)
      else if 97 \<le> c \<and> c \<le> 102 then Some (c - 87)
      else if 65 \<le> c \<and> c \<le> 70 then Some (c - 55)
      else None)"

fun hex_value :: "nat \<Rightarrow> jstring \<Rightarrow> nat option" where
  "hex_value n [] = Some n"
| "hex_value n (c # cs) =
     (case hex_digit c of None \<Rightarrow> None | Some d \<Rightarrow> hex_value (16 * n + d) cs)"

definition hex24 :: "jstring \<Rightarrow> oid option" where
  "hex24 s = (if length s = 24 then hex_value 0 s else None)"

definition demo_base :: lib where
  "demo_base =
     \<lparr>bcrypt_hash = (\<lambda>p r s. []), bcrypt_compare = (\<lambda>q h. False),
      joi_email = (\<lambda>s. 64 \<in> set s), cast_object_id = hex24\<rparr>"

definition demo_lib :: lib where
  "demo_lib = with_bcrypt (\<lambda>r s k. k) demo_base"

definition empty_state :: state where
  "empty_state = \<lparr>users = [], sessions = Map.empty, errlog = []\<rparr>"

text \<open>A client without a session cookie.\<close>

definition anon :: ctx where
  "anon = \<lparr>cookie = None, new_sid = 3, salt = 7, destroy_err = None\<rparr>"

text \<open>A client whose cookie names session 3.\<close>

definition client3 :: ctx where
  "client3 = \<lparr>cookie = Some 3, new_sid = 4, salt = 9, destroy_err = None\<rparr>"

definition bob :: user where
  "bob = \<lparr>user_id = 2, name = of_ascii ''bob42'', email = of_ascii ''b@x.com'',
          password = bcrypt_hash demo_lib (of_ascii ''hunter22'') 10 7, user_type = ''user''\<rparr>"

text \<open>The route texts of Bob's identifier and of an identifier that no document has.\<close>

definition bob_id :: jstring where
  "bob_id = of_ascii ''000000000000000000000002''"

definition nobody_id :: jstring where
  "nobody_id = of_ascii ''000000000000000000000063''"

text \<open>
  Two passwords of 25 code units, each three bytes long in UTF-8, that differ in the last
  code unit only.
\<close>

definition long_password :: jstring where
  "long_password =
     [20013, 20013, 20013, 20013, 20013, 20013, 20013, 20013,
      20013, 20013, 20013, 20013, 20013, 20013, 20013, 20013,
      20013, 20013, 20013, 20013, 20013, 20013, 20013, 20013,
      20013]"

definition other_password :: jstring where
  "other_password =
     [20013, 20013, 20013, 20013, 20013, 20013, 20013, 20013,
      20013, 20013, 20013, 20013, 20013, 20013, 20013, 20013,
      20013, 20013, 20013, 20013, 20013, 20013, 20013, 20013,
      20014]"

definition bob_session :: session_user where
  "bob_session = \<lparr>s_id = Some 2, s_name = of_ascii ''bob42'', s_email = Some (of_ascii ''b@x.com''),
                  s_user_type = Some ''user''\<rparr>"

definition root_session :: session_user where
  "root_session = \<lparr>s_id = Some 0, s_name = of_ascii ''root'', s_email = Some (of_ascii ''r@x.com''),
                   s_user_type = Some ''admin''\<rparr>"

text \<open>Bob is stored with role \<open>user\<close>; session 3 is Bob's, session 5 is an administrator's.\<close>

definition bob_state :: state where
  "bob_state = \<lparr>users = [bob], sessions = [3 \<mapsto> bob_session, 5 \<mapsto> root_session], errlog = []\<rparr>"

definition client5 :: ctx where
  "client5 = \<lparr>cookie = Some 5, new_sid = 6, salt = 3, destroy_err = None\<rparr>"

section \<open>Facts about validation\<close>

lemma joi_string_Inr:
  "joi_string rules label f = Inr s \<longleftrightarrow> f = Str s \<and> s \<noteq> [] \<and> first_error rules label s = None"
  by (cases f) (auto simp: joi_string_def split: option.splits)

lemma name_rules:
  "first_error [joi_alphanum, joi_min 2, joi_max 30] label s = None
     \<longleftrightarrow> list_all alnum_unit s \<and> 2 \<le> length s \<and> length s \<le> 30"
  by (simp add: joi_alphanum_def joi_min_def joi_max_def)

lemma email_rules:
  "first_error [joi_email_rule l] label s = None \<longleftrightarrow> joi_email l s"
  by (simp add: joi_email_rule_def)

lemma password_rules:
  "first_error [joi_min 5, joi_max 50] label s = None \<longleftrightarrow> 5 \<le> length s \<and> length s \<le> 50"
  by (simp add: joi_min_def joi_max_def)

lemma joi_name_Inr:
  "joi_string [joi_alphanum, joi_min 2, joi_max 30] label f = Inr s \<longleftrightarrow> f = Str s \<and> name_ok f"
  by (cases f) (auto simp: joi_string_Inr name_rules name_ok_def simp del: first_error.simps)

lemma joi_email_Inr:
  "joi_string [joi_email_rule l] label f = Inr s \<longleftrightarrow> f = Str s \<and> email_ok l f"
  by (cases f) (auto simp: joi_string_Inr email_rules email_ok_def simp del: first_error.simps)

lemma joi_password_Inr:
  "joi_string [joi_min 5, joi_max 50] label f = Inr s \<longleftrightarrow> f = Str s \<and> password_ok f"
  by (cases f) (auto simp: joi_string_Inr password_rules password_ok_def simp del: first_error.simps)

lemma signup_schema_Inr:
  "signup_schema l nm em pw = Inr (n, a, p)
     \<longleftrightarrow> nm = Str n \<and> em = Str a \<and> pw = Str p \<and> name_ok nm \<and> email_ok l em \<and> password_ok pw"
proof
  assume "signup_schema l nm em pw = Inr (n, a, p)"
  then show "nm = Str n \<and> em = Str a \<and> pw = Str p \<and> name_ok nm \<and> email_ok l em \<and> password_ok pw"
    unfolding signup_schema_def
    by (auto simp: joi_name_Inr joi_email_Inr joi_password_Inr split: sum.splits)
next
  assume ok: "nm = Str n \<and> em = Str a \<and> pw = Str p \<and> name_ok nm \<and> email_ok l em \<and> password_ok pw"
  then have "joi_string [joi_alphanum, joi_min 2, joi_max 30] ''name'' nm = Inr n"
    by (auto simp: joi_name_Inr)
  moreover from ok have "joi_string [joi_email_rule l] ''email'' em = Inr a"
    by (auto simp: joi_email_Inr)
  moreover from ok have "joi_string [joi_min 5, joi_max 50] ''password'' pw = Inr p"
    by (auto simp: joi_password_Inr)
  ultimately show "signup_schema l nm em pw = Inr (n, a, p)"
    by (simp add: signup_schema_def)
qed

lemma login_schema_Inr:
  "login_schema l em pw = Inr (a, p)
     \<longleftrightarrow> em = Str a \<and> pw = Str p \<and> email_ok l em \<and> password_ok pw"
proof
  assume "login_schema l em pw = Inr (a, p)"
  then show "em = Str a \<and> pw = Str p \<and> email_ok l em \<and> password_ok pw"
    unfolding login_schema_def
    by (auto simp: joi_email_Inr joi_password_Inr split: sum.splits)
next
  assume ok: "em = Str a \<and> pw = Str p \<and> email_ok l em \<and> password_ok pw"
  then have "joi_string [joi_email_rule l] ''email'' em = Inr a"
    by (auto simp: joi_email_Inr)
  moreover from ok have "joi_string [joi_min 5, joi_max 50] ''password'' pw = Inr p"
    by (auto simp: joi_password_Inr)
  ultimately show "login_schema l em pw = Inr (a, p)"
    by (simp add: login_schema_def)
qed

lemma name_ok_not_falsy: "name_ok f \<Longrightarrow> \<not> falsy f"
  by (cases f) (auto simp: name_ok_def falsy_def)

lemma email_ok_not_falsy: "email_ok l f \<Longrightarrow> \<not> falsy f"
  by (cases f) (auto simp: email_ok_def falsy_def)

lemma password_ok_not_falsy: "password_ok f \<Longrightarrow> \<not> falsy f"
  by (cases f) (auto simp: password_ok_def falsy_def)

section \<open>Facts about the stores\<close>

lemma find_one_append:
  "find_one (us @ [u]) a = (case find_one us a of Some v \<Rightarrow> Some v | None \<Rightarrow> if email u = a then Some u else None)"
  unfolding find_one_def by (induction us) auto

lemma save_new: "find_one us (email u) = None \<Longrightarrow> save us u = Inr (us @ [u])"
  by (simp add: save_def)

lemma update_one_absent: "i \<notin> user_id ` set us \<Longrightarrow> update_one us i r = us"
  by (induction us) auto

lemma update_one_same_but_role: "list_all2 same_but_role us (update_one us i r)"
  by (induction us) (auto simp: same_but_role_def list_all2_same)

lemma update_one_others:
  "k < length us \<Longrightarrow> user_id (us ! k) \<noteq> i \<Longrightarrow> update_one us i r ! k = us ! k"
proof (induction us arbitrary: k)
  case Nil
  then show ?case by simp
next
  case (Cons u us)
  then show ?case by (cases k) auto
qed

lemma update_one_target:
  "find (\<lambda>u. user_id u = i) (update_one us i r)
     = map_option (\<lambda>u. u\<lparr>user_type := r\<rparr>) (find (\<lambda>u. user_id u = i) us)"
  by (induction us) auto

lemma session_id_users [simp]: "session_id (st\<lparr>users := us\<rparr>) cx = session_id st cx"
  by (simp add: session_id_def split: option.splits)

lemma logout_lookup:
  "cookie cx' = cookie cx \<Longrightarrow> destroy_err cx = None
     \<Longrightarrow> req_session_user (session_destroy st cx) cx' = None"
  by (auto simp: req_session_user_def session_destroy_def session_id_def split: option.splits)


section \<open>Authorization guard\<close>

text \<open>
  C1, as the handlers have it. When the session has no user, \<^verbatim>\<open>/members\<close> redirects to
  \<^verbatim>\<open>/\<close>, \<^verbatim>\<open>/admin\<close> redirects to \<^verbatim>\<open>/login\<close>, and \<^verbatim>\<open>/promote/:id\<close> and
  \<^verbatim>\<open>/demote/:id\<close> answer 403 without touching the state. When the session has a user
  whose role is not \<open>admin\<close>, the three admin routes answer 403.
\<close>

theorem guard_checks:
  "(req_session_user st cx = None \<longrightarrow>
      members st cx = Redirect ''/''
      \<and> admin st cx = Redirect ''/login''
      \<and> promote l st cx i = Inr (st, StatusSend 403 ''Not authorized'')
      \<and> demote l st cx i = Inr (st, StatusSend 403 ''Not authorized''))
   \<and> (\<forall>su. req_session_user st cx = Some su \<and> s_user_type su \<noteq> Some ''admin'' \<longrightarrow>
      admin st cx = StatusSend 403 ''Not authorized''
      \<and> promote l st cx i = Inr (st, StatusSend 403 ''Not authorized'')
      \<and> demote l st cx i = Inr (st, StatusSend 403 ''Not authorized''))"
  by (auto simp: members_def admin_def promote_def demote_def)

text \<open>The guard on a client without a session and on Bob's session, whose role is \<open>user\<close>.\<close>

theorem guard_checks_witness:
  "req_session_user empty_state anon = None
   \<and> members empty_state anon = Redirect ''/''
   \<and> admin empty_state anon = Redirect ''/login''
   \<and> promote demo_lib empty_state anon bob_id = Inr (empty_state, StatusSend 403 ''Not authorized'')
   \<and> demote demo_lib empty_state anon bob_id = Inr (empty_state, StatusSend 403 ''Not authorized'')
   \<and> req_session_user bob_state client3 = Some bob_session
   \<and> s_user_type bob_session \<noteq> Some ''admin''
   \<and> admin bob_state client3 = StatusSend 403 ''Not authorized''
   \<and> promote demo_lib bob_state client3 bob_id = Inr (bob_state, StatusSend 403 ''Not authorized'')
   \<and> demote demo_lib bob_state client3 bob_id = Inr (bob_state, StatusSend 403 ''Not authorized'')"
proof -
  have absent: "req_session_user empty_state anon = None"
    by (simp add: req_session_user_def anon_def)
  have present: "req_session_user bob_state client3 = Some bob_session"
    by (simp add: req_session_user_def client3_def bob_state_def)
  have role: "s_user_type bob_session \<noteq> Some ''admin''"
    by (simp add: bob_session_def)
  from absent present role
    guard_checks [of empty_state anon demo_lib bob_id]
    guard_checks [of bob_state client3 demo_lib bob_id]
  show ?thesis by blast
qed

text \<open>
  C1 as stated asks for a redirect whenever the session is absent, and for \<^verbatim>\<open>/login\<close> as
  the target on the members route. Without a session \<^verbatim>\<open>/promote/:id\<close> answers 403, which
  is no redirect, and \<^verbatim>\<open>/members\<close> redirects to \<^verbatim>\<open>/\<close>.
\<close>

theorem guard_redirect_counterexample:
  "req_session_user empty_state anon = None
   \<and> answer (promote demo_lib empty_state anon bob_id) = Inr (StatusSend 403 ''Not authorized'')
   \<and> answer (promote demo_lib empty_state anon bob_id) \<noteq> Inr (Redirect ''/login'')
   \<and> answer (promote demo_lib empty_state anon bob_id) \<noteq> Inr (Redirect ''/'')
   \<and> members empty_state anon = Redirect ''/''
   \<and> members empty_state anon \<noteq> Redirect ''/login''"
  by (simp add: req_session_user_def anon_def promote_def members_def answer_def)

section \<open>Login\<close>

text \<open>
  C2. For a well-formed email and password, a login against a collection without that
  email and a login against a collection where the email exists but
  \<^verbatim>\<open>bcrypt.compare\<close> fails both leave the state as it was and render the same response,
  the login form with the message \<^verbatim>\<open>User and password not found.\<close>
\<close>

theorem login_failures_identical:
  assumes "email_ok l (Str a)" and "password_ok (Str p)"
    and "find_one (users st1) a = None"
    and "find_one (users st2) a = Some u" and "\<not> bcrypt_compare l p (password u)"
  shows "login_post l st1 cx1 (Str a) (Str p)
           = (st1, Render ''login'' (ErrorL (Some (Text ''User and password not found.''))))
       \<and> login_post l st2 cx2 (Str a) (Str p)
           = (st2, Render ''login'' (ErrorL (Some (Text ''User and password not found.''))))
       \<and> snd (login_post l st1 cx1 (Str a) (Str p)) = snd (login_post l st2 cx2 (Str a) (Str p))"
proof -
  from assms(1,2) have valid: "login_schema l (Str a) (Str p) = Inr (a, p)"
    by (simp add: login_schema_Inr)
  from assms(1,2) have truthy: "\<not> falsy (Str a)" "\<not> falsy (Str p)"
    by (simp_all add: email_ok_not_falsy password_ok_not_falsy)
  from valid truthy assms(3) have one:
    "login_post l st1 cx1 (Str a) (Str p)
       = (st1, Render ''login'' (ErrorL (Some (Text ''User and password not found.''))))"
    by (simp add: login_post_def)
  from valid truthy assms(4,5) have two:
    "login_post l st2 cx2 (Str a) (Str p)
       = (st2, Render ''login'' (ErrorL (Some (Text ''User and password not found.''))))"
    by (simp add: login_post_def)
  from one two show ?thesis by simp
qed

text \<open>An unknown email on the empty collection, and Bob's email with a wrong password.\<close>

theorem login_failures_identical_witness:
  "login_post demo_lib empty_state anon (Str (of_ascii ''b@x.com'')) (Str (of_ascii ''hunter23''))
     = (empty_state, Render ''login'' (ErrorL (Some (Text ''User and password not found.''))))
   \<and> login_post demo_lib bob_state client3 (Str (of_ascii ''b@x.com'')) (Str (of_ascii ''hunter23''))
     = (bob_state, Render ''login'' (ErrorL (Some (Text ''User and password not found.''))))
   \<and> snd (login_post demo_lib empty_state anon (Str (of_ascii ''b@x.com'')) (Str (of_ascii ''hunter23'')))
     = snd (login_post demo_lib bob_state client3 (Str (of_ascii ''b@x.com'')) (Str (of_ascii ''hunter23'')))"
proof -
  have e: "email_ok demo_lib (Str (of_ascii ''b@x.com''))"
    by (simp add: email_ok_def demo_lib_def demo_base_def with_bcrypt_def bcrypt_key_def of_ascii_def)
  have p: "password_ok (Str (of_ascii ''hunter23''))"
    by (simp add: password_ok_def of_ascii_def)
  have none: "find_one (users empty_state) (of_ascii ''b@x.com'') = None"
    by (simp add: find_one_def empty_state_def)
  have some: "find_one (users bob_state) (of_ascii ''b@x.com'') = Some bob"
    by (simp add: find_one_def bob_state_def bob_def)
  have wrong: "\<not> bcrypt_compare demo_lib (of_ascii ''hunter23'') (password bob)"
    by (simp add: demo_lib_def demo_base_def with_bcrypt_def bcrypt_key_def bob_def of_ascii_def)
  show ?thesis
    by (rule login_failures_identical [OF e p none some wrong])
qed

section \<open>Signup\<close>

lemma signup_post_valid:
  assumes "signup_schema l nm em pw = Inr (n, a, p)"
    and "find_one (users st) a = None"
  shows "signup_post l st cx nm em pw =
           Inr (st\<lparr>users := users st @
                     [\<lparr>user_id = new_oid (users st), name = n, email = a,
                       password = bcrypt_hash l p 10 (salt cx), user_type = ''user''\<rparr>],
                    sessions := (sessions st)(session_id st cx \<mapsto>
                       \<lparr>s_id = None, s_name = n, s_email = None, s_user_type = None\<rparr>)\<rparr>,
                Redirect ''/members'')"
proof -
  from assms(1) have truthy: "\<not> falsy nm" "\<not> falsy em" "\<not> falsy pw"
    by (auto simp: signup_schema_Inr
        dest: name_ok_not_falsy email_ok_not_falsy password_ok_not_falsy)
  let ?u = "\<lparr>user_id = new_oid (users st), name = n, email = a,
              password = bcrypt_hash l p 10 (salt cx), user_type = ''user''\<rparr>"
  from assms(2) have "save (users st) ?u = Inr (users st @ [?u])"
    by (simp add: save_new)
  with truthy assms(1) show ?thesis
    by (simp add: signup_post_def Let_def set_session_user_def)
qed

text \<open>
  C3. A signup that passes validation and whose email is not stored appends one document
  with the hashed password and the role \<open>user\<close>, sets the session user to an object with
  the name only, and redirects to \<^verbatim>\<open>/members\<close>.
\<close>

theorem signup_success:
  assumes "signup_schema l nm em pw = Inr (n, a, p)"
    and "find_one (users st) a = None"
  shows "signup_post l st cx nm em pw =
           Inr (st\<lparr>users := users st @
                     [\<lparr>user_id = new_oid (users st), name = n, email = a,
                       password = bcrypt_hash l p 10 (salt cx), user_type = ''user''\<rparr>],
                    sessions := (sessions st)(session_id st cx \<mapsto>
                       \<lparr>s_id = None, s_name = n, s_email = None, s_user_type = None\<rparr>)\<rparr>,
                Redirect ''/members'')"
  using assms by (rule signup_post_valid)

text \<open>The signup of \<open>alice1\<close> on the empty collection.\<close>

theorem signup_success_witness:
  "signup_post demo_lib empty_state anon
      (Str (of_ascii ''alice1'')) (Str (of_ascii ''a@x.com'')) (Str (of_ascii ''secret'')) =
     Inr (empty_state\<lparr>users := users empty_state @
                     [\<lparr>user_id = new_oid (users empty_state), name = of_ascii ''alice1'',
                       email = of_ascii ''a@x.com'',
                       password = bcrypt_hash demo_lib (of_ascii ''secret'') 10 (salt anon),
                       user_type = ''user''\<rparr>],
                    sessions := (sessions empty_state)(session_id empty_state anon \<mapsto>
                       \<lparr>s_id = None, s_name = of_ascii ''alice1'', s_email = None,
                        s_user_type = None\<rparr>)\<rparr>,
          Redirect ''/members'')"
proof -
  have valid: "signup_schema demo_lib
      (Str (of_ascii ''alice1'')) (Str (of_ascii ''a@x.com'')) (Str (of_ascii ''secret''))
      = Inr (of_ascii ''alice1'', of_ascii ''a@x.com'', of_ascii ''secret'')"
    by (simp add: signup_schema_def joi_string_def joi_alphanum_def joi_min_def joi_max_def
        joi_email_rule_def alnum_unit_def demo_lib_def demo_base_def with_bcrypt_def bcrypt_key_def of_ascii_def)
  have new: "find_one (users empty_state) (of_ascii ''a@x.com'') = None"
    by (simp add: find_one_def empty_state_def)
  show ?thesis
    by (rule signup_success [OF valid new])
qed


lemma all_ok_schema:
  assumes "name_ok nm" and "email_ok l em" and "password_ok pw"
  shows "\<exists>n a p. signup_schema l nm em pw = Inr (n, a, p)"
proof -
  from assms(1) obtain n where "nm = Str n" by (cases nm) (auto simp: name_ok_def)
  moreover from assms(2) obtain a where "em = Str a" by (cases em) (auto simp: email_ok_def)
  moreover from assms(3) obtain p where "pw = Str p" by (cases pw) (auto simp: password_ok_def)
  ultimately have "signup_schema l nm em pw = Inr (n, a, p)"
    using assms by (simp add: signup_schema_Inr)
  then show ?thesis by blast
qed

lemma undefined_not_ok:
  "\<not> name_ok Undefined \<and> \<not> email_ok l Undefined \<and> \<not> password_ok Undefined"
  by (simp add: name_ok_def email_ok_def password_ok_def)

lemma signup_render:
  "signup_post l st cx nm em pw = Inr (st', Render v x)
     \<Longrightarrow> st' = st \<and> v = ''signup'' \<and> (\<exists>m. x = ErrorL (Some m))"
  by (auto simp: signup_post_def Let_def split: if_splits sum.splits prod.splits)

lemma signup_invalid:
  assumes "\<not> name_ok nm \<or> \<not> email_ok l em \<or> \<not> password_ok pw"
  shows "\<exists>m. signup_post l st cx nm em pw = Inr (st, Render ''signup'' (ErrorL (Some m)))"
proof (cases "falsy nm \<or> falsy em \<or> falsy pw")
  case True
  then show ?thesis by (simp add: signup_post_def)
next
  case False
  show ?thesis
  proof (cases "signup_schema l nm em pw")
    case (Inl e)
    with False show ?thesis by (simp add: signup_post_def)
  next
    case (Inr t)
    then obtain n a p where "signup_schema l nm em pw = Inr (n, a, p)" by (cases t) auto
    with assms show ?thesis by (auto simp: signup_schema_Inr)
  qed
qed

lemma signup_valid_no_render:
  assumes "name_ok nm" and "email_ok l em" and "password_ok pw"
  shows "signup_post l st cx nm em pw \<noteq> Inr (st', Render v x)"
proof -
  from all_ok_schema [OF assms] obtain n a p where s: "signup_schema l nm em pw = Inr (n, a, p)"
    by blast
  from assms have "\<not> falsy nm" "\<not> falsy em" "\<not> falsy pw"
    by (auto dest: name_ok_not_falsy email_ok_not_falsy password_ok_not_falsy)
  with s show ?thesis
    by (auto simp: signup_post_def Let_def split: sum.splits)
qed

section \<open>Signup validation\<close>

text \<open>
  C5. \<^verbatim>\<open>POST /signup\<close> re-renders the form with an error message, leaving the
  collection and the session store as they were, if and only if one of name, email and
  password is missing, or the name is not alphanumeric of length 2 to 30, or the email is
  not well-formed, or the length of the password is not between 5 and 50. Whenever the
  handler renders at all, it is the signup form with a message, on an unchanged state.
\<close>

theorem signup_validation_error_iff:
  "((\<exists>m. signup_post l st cx nm em pw = Inr (st, Render ''signup'' (ErrorL (Some m))))
      \<longleftrightarrow> (nm = Undefined \<or> em = Undefined \<or> pw = Undefined
           \<or> \<not> name_ok nm \<or> \<not> email_ok l em \<or> \<not> password_ok pw))
   \<and> (\<forall>st' v x. signup_post l st cx nm em pw = Inr (st', Render v x) \<longrightarrow>
          st' = st \<and> v = ''signup'' \<and> (\<exists>m. x = ErrorL (Some m)))"
proof -
  have fwd: "\<not> name_ok nm \<or> \<not> email_ok l em \<or> \<not> password_ok pw"
    if "signup_post l st cx nm em pw = Inr (st, Render ''signup'' (ErrorL (Some m)))" for m
    using that signup_valid_no_render [of nm l em pw st cx st "''signup''" "ErrorL (Some m)"]
    by blast
  have bwd: "\<exists>m. signup_post l st cx nm em pw = Inr (st, Render ''signup'' (ErrorL (Some m)))"
    if "nm = Undefined \<or> em = Undefined \<or> pw = Undefined
           \<or> \<not> name_ok nm \<or> \<not> email_ok l em \<or> \<not> password_ok pw"
  proof -
    from that have "\<not> name_ok nm \<or> \<not> email_ok l em \<or> \<not> password_ok pw"
      using undefined_not_ok [of l] by blast
    then show ?thesis by (rule signup_invalid)
  qed
  have frame: "st' = st \<and> v = ''signup'' \<and> (\<exists>m. x = ErrorL (Some m))"
    if "signup_post l st cx nm em pw = Inr (st', Render v x)" for st' v x
    using that by (rule signup_render)
  from fwd bwd frame show ?thesis by blast
qed

text \<open>A one-letter name is refused; \<open>alice1\<close> with a valid email and password is not.\<close>

theorem signup_validation_error_iff_witness:
  "\<not> name_ok (Str (of_ascii ''a''))
   \<and> (\<exists>m. signup_post demo_lib bob_state anon
             (Str (of_ascii ''a'')) (Str (of_ascii ''a@x.com'')) (Str (of_ascii ''secret''))
           = Inr (bob_state, Render ''signup'' (ErrorL (Some m))))
   \<and> name_ok (Str (of_ascii ''alice1'')) \<and> email_ok demo_lib (Str (of_ascii ''a@x.com''))
   \<and> password_ok (Str (of_ascii ''secret''))
   \<and> \<not> (\<exists>m. signup_post demo_lib bob_state anon
             (Str (of_ascii ''alice1'')) (Str (of_ascii ''a@x.com'')) (Str (of_ascii ''secret''))
           = Inr (bob_state, Render ''signup'' (ErrorL (Some m))))"
proof -
  have short: "\<not> name_ok (Str (of_ascii ''a''))"
    by (simp add: name_ok_def of_ascii_def)
  have n: "name_ok (Str (of_ascii ''alice1''))"
    by (simp add: name_ok_def of_ascii_def alnum_unit_def)
  have e: "email_ok demo_lib (Str (of_ascii ''a@x.com''))"
    by (simp add: email_ok_def demo_lib_def demo_base_def with_bcrypt_def bcrypt_key_def of_ascii_def)
  have p: "password_ok (Str (of_ascii ''secret''))"
    by (simp add: password_ok_def of_ascii_def)
  from short n e p
    signup_validation_error_iff [of demo_lib bob_state anon "Str (of_ascii ''a'')"
      "Str (of_ascii ''a@x.com'')" "Str (of_ascii ''secret'')"]
    signup_validation_error_iff [of demo_lib bob_state anon "Str (of_ascii ''alice1'')"
      "Str (of_ascii ''a@x.com'')" "Str (of_ascii ''secret'')"]
  show ?thesis by simp
qed

section \<open>Signup followed by login\<close>

text \<open>
  What a login answers right after a signup, whatever the hasher is: the decision is the
  one \<^verbatim>\<open>bcrypt.compare\<close> takes on the hash that signup stored.
\<close>

lemma login_after_signup:
  assumes "signup_schema l nm em pw = Inr (n, a, p)"
    and "find_one (users st) a = None"
    and "signup_post l st cx nm em pw = Inr (st', r)"
    and "password_ok (Str q)"
  shows "login_post l st' cx' em (Str q) =
     (if bcrypt_compare l q (bcrypt_hash l p 10 (salt cx))
      then (st'\<lparr>sessions := (sessions st')(session_id st' cx' \<mapsto>
                 \<lparr>s_id = Some (new_oid (users st)), s_name = n, s_email = Some a,
                  s_user_type = Some ''user''\<rparr>)\<rparr>,
            Redirect ''/members'')
      else (st', Render ''login'' (ErrorL (Some (Text ''User and password not found.'')))))"
proof -
  let ?u = "\<lparr>user_id = new_oid (users st), name = n, email = a,
              password = bcrypt_hash l p 10 (salt cx), user_type = ''user''\<rparr>"
  from signup_post_valid [OF assms(1,2), of cx] assms(3)
  have st': "st' = st\<lparr>users := users st @ [?u],
                 sessions := (sessions st)(session_id st cx \<mapsto>
                    \<lparr>s_id = None, s_name = n, s_email = None, s_user_type = None\<rparr>)\<rparr>"
    by simp
  from assms(1) have flds: "em = Str a" "email_ok l em"
    by (auto simp: signup_schema_Inr)
  then have truthy: "\<not> falsy em"
    by (auto dest: email_ok_not_falsy)
  from assms(4) have t: "\<not> falsy (Str q)"
    by (auto dest: password_ok_not_falsy)
  from flds assms(4) have valid: "login_schema l em (Str q) = Inr (a, q)"
    by (simp add: login_schema_Inr)
  from assms(2) st' have found: "find_one (users st') a = Some ?u"
    by (simp add: find_one_append)
  from truthy t valid found show ?thesis
    by (simp add: login_post_def set_session_user_def)
qed

lemma with_bcrypt_compare_hash:
  "bcrypt_compare (with_bcrypt eks l) q (bcrypt_hash (with_bcrypt eks l) p r s)
     = (eks r s (bcrypt_key q) = eks r s (bcrypt_key p))"
  by (simp add: with_bcrypt_def)

lemma long_password_key: "bcrypt_key other_password = bcrypt_key long_password"
  by (simp add: bcrypt_key_def other_password_def long_password_def)

text \<open>
  C4, as bcrypt has it. With bcrypt as documented, whatever its digest function, a valid
  signup on a collection without that email succeeds, and a following login with the same
  email and password redirects to \<^verbatim>\<open>/members\<close> with a session whose role is \<open>user\<close>:
  verifying the password against its own hash is true. For any other well-formed password
  the login is admitted or refused as \<^verbatim>\<open>bcrypt.compare\<close> decides, which is by the
  digests of the first 72 bytes of the two passwords.
\<close>

theorem signup_login_round_trip:
  fixes eks :: "nat \<Rightarrow> nat \<Rightarrow> nat list \<Rightarrow> jstring" and l :: lib
  defines "b \<equiv> with_bcrypt eks l"
  assumes "signup_schema b nm em pw = Inr (n, a, p)"
    and "find_one (users st) a = None"
  shows "\<exists>st'. signup_post b st cx nm em pw = Inr (st', Redirect ''/members'')
     \<and> login_post b st' cx' em pw =
         (st'\<lparr>sessions := (sessions st')(session_id st' cx' \<mapsto>
                 \<lparr>s_id = Some (new_oid (users st)), s_name = n, s_email = Some a,
                  s_user_type = Some ''user''\<rparr>)\<rparr>,
          Redirect ''/members'')
     \<and> bcrypt_compare b p (bcrypt_hash b p 10 (salt cx))
     \<and> (\<forall>q. bcrypt_compare b q (bcrypt_hash b p 10 (salt cx))
              = (eks 10 (salt cx) (bcrypt_key q) = eks 10 (salt cx) (bcrypt_key p)))
     \<and> (\<forall>q. password_ok (Str q) \<longrightarrow>
           login_post b st' cx' em (Str q) =
             (if eks 10 (salt cx) (bcrypt_key q) = eks 10 (salt cx) (bcrypt_key p)
              then (st'\<lparr>sessions := (sessions st')(session_id st' cx' \<mapsto>
                      \<lparr>s_id = Some (new_oid (users st)), s_name = n, s_email = Some a,
                       s_user_type = Some ''user''\<rparr>)\<rparr>,
                    Redirect ''/members'')
              else (st', Render ''login'' (ErrorL (Some (Text ''User and password not found.''))))))"
proof -
  from signup_post_valid [OF assms(2,3)] obtain st' where
    up: "signup_post b st cx nm em pw = Inr (st', Redirect ''/members'')"
    by blast
  note after = login_after_signup [OF assms(2,3) up]
  have cmp: "bcrypt_compare b q (bcrypt_hash b p 10 (salt cx))
              = (eks 10 (salt cx) (bcrypt_key q) = eks 10 (salt cx) (bcrypt_key p))" for q
    unfolding b_def by (rule with_bcrypt_compare_hash)
  from assms(2) have pw: "pw = Str p" "password_ok (Str p)"
    by (auto simp: signup_schema_Inr)
  from cmp [of p] have same: "bcrypt_compare b p (bcrypt_hash b p 10 (salt cx))"
    by simp
  from after [OF pw(2), of cx'] pw(1) same have "in": "login_post b st' cx' em pw =
         (st'\<lparr>sessions := (sessions st')(session_id st' cx' \<mapsto>
                 \<lparr>s_id = Some (new_oid (users st)), s_name = n, s_email = Some a,
                  s_user_type = Some ''user''\<rparr>)\<rparr>,
          Redirect ''/members'')"
    by simp
  have any: "login_post b st' cx' em (Str q) =
             (if eks 10 (salt cx) (bcrypt_key q) = eks 10 (salt cx) (bcrypt_key p)
              then (st'\<lparr>sessions := (sessions st')(session_id st' cx' \<mapsto>
                      \<lparr>s_id = Some (new_oid (users st)), s_name = n, s_email = Some a,
                       s_user_type = Some ''user''\<rparr>)\<rparr>,
                    Redirect ''/members'')
              else (st', Render ''login'' (ErrorL (Some (Text ''User and password not found.'')))))"
    if "password_ok (Str q)" for q
    using after [OF that, of cx'] cmp [of q] by simp
  from up "in" same cmp any show ?thesis by blast
qed

text \<open>Alice signs up, logs in with \<open>secret\<close>, and is refused with \<open>wrong\<close>.\<close>

theorem signup_login_round_trip_witness:
  "\<exists>st'. signup_post demo_lib empty_state anon
               (Str (of_ascii ''alice1'')) (Str (of_ascii ''a@x.com'')) (Str (of_ascii ''secret''))
             = Inr (st', Redirect ''/members'')
        \<and> login_post demo_lib st' client3 (Str (of_ascii ''a@x.com'')) (Str (of_ascii ''secret'')) =
            (st'\<lparr>sessions := (sessions st')(session_id st' client3 \<mapsto>
                 \<lparr>s_id = Some (new_oid (users empty_state)), s_name = of_ascii ''alice1'',
                  s_email = Some (of_ascii ''a@x.com''), s_user_type = Some ''user''\<rparr>)\<rparr>,
             Redirect ''/members'')
        \<and> login_post demo_lib st' client3 (Str (of_ascii ''a@x.com'')) (Str (of_ascii ''wrong'')) =
            (st', Render ''login'' (ErrorL (Some (Text ''User and password not found.''))))"
proof -
  have valid: "signup_schema demo_lib
      (Str (of_ascii ''alice1'')) (Str (of_ascii ''a@x.com'')) (Str (of_ascii ''secret''))
      = Inr (of_ascii ''alice1'', of_ascii ''a@x.com'', of_ascii ''secret'')"
    by (simp add: signup_schema_def joi_string_def joi_alphanum_def joi_min_def joi_max_def
        joi_email_rule_def alnum_unit_def demo_lib_def demo_base_def with_bcrypt_def of_ascii_def)
  have new: "find_one (users empty_state) (of_ascii ''a@x.com'') = None"
    by (simp add: find_one_def empty_state_def)
  have q: "password_ok (Str (of_ascii ''wrong''))"
    by (simp add: password_ok_def of_ascii_def)
  have differ: "bcrypt_key (of_ascii ''wrong'') \<noteq> bcrypt_key (of_ascii ''secret'')"
    by (simp add: bcrypt_key_def of_ascii_def)
  from signup_login_round_trip [of "\<lambda>r s k. k" demo_base, folded demo_lib_def, OF valid new,
      where cx = anon and cx' = client3]
  obtain st' where
    "signup_post demo_lib empty_state anon
        (Str (of_ascii ''alice1'')) (Str (of_ascii ''a@x.com'')) (Str (of_ascii ''secret''))
      = Inr (st', Redirect ''/members'')"
    and "login_post demo_lib st' client3 (Str (of_ascii ''a@x.com'')) (Str (of_ascii ''secret'')) =
            (st'\<lparr>sessions := (sessions st')(session_id st' client3 \<mapsto>
                 \<lparr>s_id = Some (new_oid (users empty_state)), s_name = of_ascii ''alice1'',
                  s_email = Some (of_ascii ''a@x.com''), s_user_type = Some ''user''\<rparr>)\<rparr>,
             Redirect ''/members'')"
    and "\<forall>q. password_ok (Str q) \<longrightarrow>
           login_post demo_lib st' client3 (Str (of_ascii ''a@x.com'')) (Str q) =
             (if bcrypt_key q = bcrypt_key (of_ascii ''secret'')
              then (st'\<lparr>sessions := (sessions st')(session_id st' client3 \<mapsto>
                      \<lparr>s_id = Some (new_oid (users empty_state)), s_name = of_ascii ''alice1'',
                       s_email = Some (of_ascii ''a@x.com''), s_user_type = Some ''user''\<rparr>)\<rparr>,
                    Redirect ''/members'')
              else (st', Render ''login'' (ErrorL (Some (Text ''User and password not found.'')))))"
    by blast
  with q differ show ?thesis by auto
qed

text \<open>
  C4 as stated asks that verification be false for any other string. Alice signs up with a
  password of 75 bytes; \<^verbatim>\<open>bcrypt.compare\<close> accepts another password with the same
  first 72 bytes, and the login with it redirects to \<^verbatim>\<open>/members\<close>.
\<close>

theorem other_password_counterexample:
  "password_ok (Str long_password)
   \<and> password_ok (Str other_password)
   \<and> other_password \<noteq> long_password
   \<and> bcrypt_compare demo_lib other_password (bcrypt_hash demo_lib long_password 10 (salt anon))
   \<and> answer (signup_post demo_lib empty_state anon
         (Str (of_ascii ''alice1'')) (Str (of_ascii ''a@x.com'')) (Str long_password))
       = Inr (Redirect ''/members'')
   \<and> snd (login_post demo_lib
         (state_after empty_state (signup_post demo_lib empty_state anon
            (Str (of_ascii ''alice1'')) (Str (of_ascii ''a@x.com'')) (Str long_password)))
         client3 (Str (of_ascii ''a@x.com'')) (Str other_password))
       = Redirect ''/members''"
proof -
  have lp: "password_ok (Str long_password)"
    by (simp add: password_ok_def long_password_def)
  have op: "password_ok (Str other_password)"
    by (simp add: password_ok_def other_password_def)
  have ne: "other_password \<noteq> long_password"
    by (simp add: other_password_def long_password_def)
  have cmp: "bcrypt_compare demo_lib other_password (bcrypt_hash demo_lib long_password 10 (salt anon))"
    unfolding demo_lib_def by (simp add: with_bcrypt_compare_hash long_password_key)
  have valid: "signup_schema demo_lib
      (Str (of_ascii ''alice1'')) (Str (of_ascii ''a@x.com'')) (Str long_password)
      = Inr (of_ascii ''alice1'', of_ascii ''a@x.com'', long_password)"
    using lp
    by (simp add: signup_schema_Inr name_ok_def email_ok_def alnum_unit_def
        demo_lib_def demo_base_def with_bcrypt_def of_ascii_def)
  have new: "find_one (users empty_state) (of_ascii ''a@x.com'') = None"
    by (simp add: find_one_def empty_state_def)
  note up = signup_post_valid [OF valid new, of anon]
  from login_after_signup [OF valid new up op, of client3] cmp up
  show ?thesis
    using lp op ne by (simp add: answer_def state_after_def)
qed

section \<open>Role changes\<close>

lemma hex24_bob: "cast_object_id demo_lib bob_id = Some 2"
  by (simp add: demo_lib_def demo_base_def with_bcrypt_def hex24_def hex_digit_def bob_id_def
      of_ascii_def)

lemma hex24_nobody: "cast_object_id demo_lib nobody_id = Some 99"
  by (simp add: demo_lib_def demo_base_def with_bcrypt_def hex24_def hex_digit_def nobody_id_def
      of_ascii_def)

text \<open>
  C6, as the handlers have it. For a request with an administrator's session whose
  \<^verbatim>\<open>:id\<close> Mongoose casts to an ObjectId, \<^verbatim>\<open>/promote/:id\<close> and \<^verbatim>\<open>/demote/:id\<close>
  write the role \<open>admin\<close> or \<open>user\<close> into the document with that identifier and redirect
  to \<^verbatim>\<open>/admin\<close>, whether or not such a document exists. The update leaves identifier,
  name, email and password of every document as they were, leaves every document with
  another identifier untouched, gives the target the new role, and changes nothing when
  no document has the identifier. When the \<^verbatim>\<open>:id\<close> cannot be cast, \<^verbatim>\<open>updateOne\<close>
  rejects: nothing is written and no redirect is sent.
\<close>

theorem set_role_unconditional:
  assumes "req_session_user st cx = Some su" and "s_user_type su = Some ''admin''"
  shows "(\<forall>k. cast_object_id l i = Some k \<longrightarrow>
       promote l st cx i = Inr (st\<lparr>users := update_one (users st) k ''admin''\<rparr>, Redirect ''/admin'')
       \<and> demote l st cx i = Inr (st\<lparr>users := update_one (users st) k ''user''\<rparr>, Redirect ''/admin'')
       \<and> (\<forall>r. list_all2 same_but_role (users st) (update_one (users st) k r)
            \<and> find (\<lambda>u. user_id u = k) (update_one (users st) k r)
                = map_option (\<lambda>u. u\<lparr>user_type := r\<rparr>) (find (\<lambda>u. user_id u = k) (users st))
            \<and> (\<forall>j<length (users st). user_id (users st ! j) \<noteq> k \<longrightarrow>
                  update_one (users st) k r ! j = users st ! j)
            \<and> (k \<notin> user_id ` set (users st) \<longrightarrow> update_one (users st) k r = users st)))
     \<and> (cast_object_id l i = None \<longrightarrow>
          promote l st cx i = Inl CastError \<and> demote l st cx i = Inl CastError)"
proof -
  have "promote l st cx i
      = Inr (st\<lparr>users := update_one (users st) k ''admin''\<rparr>, Redirect ''/admin'')"
    if "cast_object_id l i = Some k" for k
    using assms that by (simp add: promote_def)
  moreover have "demote l st cx i
      = Inr (st\<lparr>users := update_one (users st) k ''user''\<rparr>, Redirect ''/admin'')"
    if "cast_object_id l i = Some k" for k
    using assms that by (simp add: demote_def)
  moreover have "promote l st cx i = Inl CastError \<and> demote l st cx i = Inl CastError"
    if "cast_object_id l i = None"
    using assms that by (simp add: promote_def demote_def)
  ultimately show ?thesis
    by (simp add: update_one_same_but_role update_one_target update_one_others update_one_absent)
qed

text \<open>
  The administrator promotes Bob (identifier 2), promotes an identifier that no document
  has, and asks for \<^verbatim>\<open>/demote/bob\<close>.
\<close>

theorem set_role_unconditional_witness:
  "req_session_user bob_state client5 = Some root_session
   \<and> s_user_type root_session = Some ''admin''
   \<and> cast_object_id demo_lib bob_id = Some 2
   \<and> promote demo_lib bob_state client5 bob_id
       = Inr (bob_state\<lparr>users := update_one (users bob_state) 2 ''admin''\<rparr>, Redirect ''/admin'')
   \<and> update_one (users bob_state) 2 ''admin'' = [bob\<lparr>user_type := ''admin''\<rparr>]
   \<and> cast_object_id demo_lib nobody_id = Some 99
   \<and> promote demo_lib bob_state client5 nobody_id
       = Inr (bob_state\<lparr>users := update_one (users bob_state) 99 ''admin''\<rparr>, Redirect ''/admin'')
   \<and> update_one (users bob_state) 99 ''admin'' = users bob_state
   \<and> cast_object_id demo_lib (of_ascii ''bob'') = None
   \<and> demote demo_lib bob_state client5 (of_ascii ''bob'') = Inl CastError"
proof -
  have s: "req_session_user bob_state client5 = Some root_session"
    by (simp add: req_session_user_def client5_def bob_state_def)
  have r: "s_user_type root_session = Some ''admin''"
    by (simp add: root_session_def)
  have u: "update_one (users bob_state) 2 ''admin'' = [bob\<lparr>user_type := ''admin''\<rparr>]"
    by (simp add: bob_state_def bob_def)
  have absent: "99 \<notin> user_id ` set (users bob_state)"
    by (simp add: bob_state_def bob_def)
  have bad: "cast_object_id demo_lib (of_ascii ''bob'') = None"
    by (simp add: demo_lib_def demo_base_def with_bcrypt_def hex24_def of_ascii_def)
  from s r u absent bad hex24_bob hex24_nobody
    set_role_unconditional [OF s r, of demo_lib bob_id]
    set_role_unconditional [OF s r, of demo_lib nobody_id]
    set_role_unconditional [OF s r, of demo_lib "of_ascii ''bob''"]
  show ?thesis by blast
qed

text \<open>
  C6 as stated promises the redirect to \<^verbatim>\<open>/admin\<close> for every request with an
  administrator's session. The text \<open>99\<close> is not an ObjectId: on \<^verbatim>\<open>/promote/99\<close> and
  \<^verbatim>\<open>/demote/99\<close> \<^verbatim>\<open>updateOne\<close> rejects and no redirect is sent.
\<close>

theorem set_role_cast_counterexample:
  "req_session_user bob_state client5 = Some root_session
   \<and> s_user_type root_session = Some ''admin''
   \<and> cast_object_id demo_lib (of_ascii ''99'') = None
   \<and> promote demo_lib bob_state client5 (of_ascii ''99'') = Inl CastError
   \<and> demote demo_lib bob_state client5 (of_ascii ''99'') = Inl CastError
   \<and> answer (promote demo_lib bob_state client5 (of_ascii ''99'')) \<noteq> Inr (Redirect ''/admin'')"
  by (simp add: req_session_user_def client5_def bob_state_def root_session_def promote_def
      demote_def answer_def demo_lib_def demo_base_def with_bcrypt_def hex24_def of_ascii_def)

lemma login_snapshot:
  assumes "login_post l st cx em pw = (st', Redirect path)"
  shows "\<exists>u\<in>set (users st). sessions st' (session_id st cx)
           = Some \<lparr>s_id = Some (user_id u), s_name = name u, s_email = Some (email u),
                   s_user_type = Some (user_type u)\<rparr>"
proof -
  from assms obtain a p u where "find_one (users st) a = Some u"
    and "st' = set_session_user st cx
                 \<lparr>s_id = Some (user_id u), s_name = name u, s_email = Some (email u),
                  s_user_type = Some (user_type u)\<rparr>"
    by (auto simp: login_post_def split: if_splits sum.splits option.splits prod.splits)
  moreover from this(1) have "u \<in> set (users st)"
    by (auto simp: find_one_def find_Some_iff)
  ultimately show ?thesis
    by (auto simp: set_session_user_def)
qed

text \<open>
  C7. The state after \<^verbatim>\<open>/promote/:id\<close> or \<^verbatim>\<open>/demote/:id\<close> has the same session store
  as before, so every client's session user, and with it the answer of the guard of every
  protected route, is what it was; a session takes the stored role only through a new
  login, which copies it from the collection.
\<close>

theorem role_change_keeps_sessions:
  assumes "st' = state_after st (promote l st cx i) \<or> st' = state_after st (demote l st cx i)"
  shows "sessions st' = sessions st
     \<and> req_session_user st' cx' = req_session_user st cx'
     \<and> members st' cx' = members st cx'
     \<and> (admin st' cx' = StatusSend 403 ''Not authorized'')
         = (admin st cx' = StatusSend 403 ''Not authorized'')
     \<and> (admin st' cx' = Redirect ''/login'') = (admin st cx' = Redirect ''/login'')
     \<and> answer (promote l' st' cx' j) = answer (promote l' st cx' j)
     \<and> answer (demote l' st' cx' j) = answer (demote l' st cx' j)
     \<and> (\<forall>l em pw st''. login_post l st' cx' em pw = (st'', Redirect ''/members'') \<longrightarrow>
          (\<exists>u\<in>set (users st'). sessions st'' (session_id st' cx')
             = Some \<lparr>s_id = Some (user_id u), s_name = name u, s_email = Some (email u),
                     s_user_type = Some (user_type u)\<rparr>))"
proof -
  from assms have same: "sessions st' = sessions st"
    by (auto simp: promote_def demote_def state_after_def split: option.splits)
  then have look: "req_session_user st' cx' = req_session_user st cx'"
    by (simp add: req_session_user_def split: option.splits)
  from look have "members st' cx' = members st cx'"
    by (simp add: members_def)
  moreover from look have "(admin st' cx' = StatusSend 403 ''Not authorized'')
         = (admin st cx' = StatusSend 403 ''Not authorized'')"
    by (auto simp: admin_def split: option.splits)
  moreover from look have "(admin st' cx' = Redirect ''/login'') = (admin st cx' = Redirect ''/login'')"
    by (auto simp: admin_def split: option.splits)
  moreover from look have "answer (promote l' st' cx' j) = answer (promote l' st cx' j)"
    by (simp add: promote_def answer_def split: option.splits)
  moreover from look have "answer (demote l' st' cx' j) = answer (demote l' st cx' j)"
    by (simp add: demote_def answer_def split: option.splits)
  ultimately show ?thesis
    using same look login_snapshot by blast
qed

text \<open>
  Bob is promoted while his session is active: the session is still refused at
  \<^verbatim>\<open>/admin\<close>, and is admitted once Bob has logged in again.
\<close>

theorem role_change_keeps_sessions_witness:
  "users (state_after bob_state (promote demo_lib bob_state client5 bob_id))
     = [bob\<lparr>user_type := ''admin''\<rparr>]
   \<and> sessions (state_after bob_state (promote demo_lib bob_state client5 bob_id))
       = sessions bob_state
   \<and> req_session_user (state_after bob_state (promote demo_lib bob_state client5 bob_id)) client3
       = Some bob_session
   \<and> admin (state_after bob_state (promote demo_lib bob_state client5 bob_id)) client3
       = StatusSend 403 ''Not authorized''
   \<and> admin (fst (login_post demo_lib
                  (state_after bob_state (promote demo_lib bob_state client5 bob_id)) client3
                  (Str (of_ascii ''b@x.com'')) (Str (of_ascii ''hunter22'')))) client3
       = Render ''admin'' (UsersL [bob\<lparr>user_type := ''admin''\<rparr>])"
proof -
  let ?st' = "state_after bob_state (promote demo_lib bob_state client5 bob_id)"
  have us: "users ?st' = [bob\<lparr>user_type := ''admin''\<rparr>]"
    by (simp add: promote_def state_after_def hex24_bob req_session_user_def client5_def
        bob_state_def root_session_def bob_def)
  have before: "req_session_user bob_state client3 = Some bob_session"
    by (simp add: req_session_user_def client3_def bob_state_def)
  then have forbidden: "admin bob_state client3 = StatusSend 403 ''Not authorized''"
    by (simp add: admin_def bob_session_def)
  have kept: "sessions ?st' = sessions bob_state
     \<and> req_session_user ?st' client3 = req_session_user bob_state client3
     \<and> (admin ?st' client3 = StatusSend 403 ''Not authorized'')
         = (admin bob_state client3 = StatusSend 403 ''Not authorized'')"
    using role_change_keeps_sessions [of ?st' bob_state demo_lib client5 bob_id client3] by blast
  have truthy: "\<not> falsy (Str (of_ascii ''b@x.com''))" "\<not> falsy (Str (of_ascii ''hunter22''))"
    by (simp_all add: falsy_def of_ascii_def)
  have valid: "login_schema demo_lib (Str (of_ascii ''b@x.com'')) (Str (of_ascii ''hunter22''))
      = Inr (of_ascii ''b@x.com'', of_ascii ''hunter22'')"
    by (simp add: login_schema_Inr email_ok_def password_ok_def demo_lib_def demo_base_def
        with_bcrypt_def of_ascii_def)
  have found: "find_one (users ?st') (of_ascii ''b@x.com'') = Some (bob\<lparr>user_type := ''admin''\<rparr>)"
    by (simp add: us find_one_def bob_def)
  have cmp: "bcrypt_compare demo_lib (of_ascii ''hunter22'')
               (bcrypt_hash demo_lib (of_ascii ''hunter22'') 10 7)"
    unfolding demo_lib_def by (simp add: with_bcrypt_compare_hash)
  have again: "login_post demo_lib ?st' client3
                  (Str (of_ascii ''b@x.com'')) (Str (of_ascii ''hunter22''))
      = (set_session_user ?st' client3
           \<lparr>s_id = Some 2, s_name = of_ascii ''bob42'', s_email = Some (of_ascii ''b@x.com''),
            s_user_type = Some ''admin''\<rparr>, Redirect ''/members'')"
    by (simp add: login_post_def truthy valid found cmp bob_def)
  have ck: "cookie client3 = Some 3"
    by (simp add: client3_def)
  have sid: "session_id ?st' client3 = 3"
    using kept by (simp add: session_id_def client3_def bob_state_def)
  have "admin (set_session_user ?st' client3
           \<lparr>s_id = Some 2, s_name = of_ascii ''bob42'', s_email = Some (of_ascii ''b@x.com''),
            s_user_type = Some ''admin''\<rparr>) client3
       = Render ''admin'' (UsersL [bob\<lparr>user_type := ''admin''\<rparr>])"
    by (simp add: admin_def req_session_user_def set_session_user_def sid us ck)
  with us before forbidden kept again show ?thesis by simp
qed

section \<open>Logout\<close>

text \<open>
  C8. \<^verbatim>\<open>/logout\<close> always redirects to \<^verbatim>\<open>/\<close>. When the store destroys the session,
  the session is gone from the store and a following \<^verbatim>\<open>/members\<close> request with the same
  cookie is redirected to \<^verbatim>\<open>/\<close>; when the store reports an error, the error is logged
  and nothing else changes.
\<close>

theorem logout_then_members:
  "snd (logout st cx) = Redirect ''/''
   \<and> (destroy_err cx = None \<longrightarrow>
        fst (logout st cx) = st\<lparr>sessions := (sessions st)(session_id st cx := None)\<rparr>
        \<and> (\<forall>cx'. cookie cx' = cookie cx \<longrightarrow>
              req_session_user (fst (logout st cx)) cx' = None
              \<and> members (fst (logout st cx)) cx' = Redirect ''/''))
   \<and> (\<forall>e. destroy_err cx = Some e \<longrightarrow>
        fst (logout st cx) = st\<lparr>errlog := errlog st @ [(''Error destroying session:'', e)]\<rparr>)"
proof -
  have "snd (logout st cx) = Redirect ''/''"
    by (simp add: logout_def Let_def)
  moreover have "fst (logout st cx) = st\<lparr>sessions := (sessions st)(session_id st cx := None)\<rparr>"
    if "destroy_err cx = None"
    using that by (simp add: logout_def Let_def session_destroy_def)
  moreover have "req_session_user (fst (logout st cx)) cx' = None
              \<and> members (fst (logout st cx)) cx' = Redirect ''/''"
    if "destroy_err cx = None" and "cookie cx' = cookie cx" for cx'
  proof -
    from that have "req_session_user (fst (logout st cx)) cx' = None"
      by (simp add: logout_def Let_def logout_lookup)
    then show ?thesis by (simp add: members_def)
  qed
  moreover have "fst (logout st cx) = st\<lparr>errlog := errlog st @ [(''Error destroying session:'', e)]\<rparr>"
    if "destroy_err cx = Some e" for e
    using that by (simp add: logout_def Let_def session_destroy_def)
  ultimately show ?thesis by blast
qed

text \<open>Bob, who sees the members page, logs out; and a logout during which the store fails.\<close>

theorem logout_then_members_witness:
  "members bob_state client3
     = Render ''members'' (MembersL (of_ascii ''bob42'') [''Cat1.jpg'', ''Cat2.jpg'', ''Cat3.jpg''])
   \<and> destroy_err client3 = None
   \<and> snd (logout bob_state client3) = Redirect ''/''
   \<and> members (fst (logout bob_state client3)) client3 = Redirect ''/''
   \<and> destroy_err (client3\<lparr>destroy_err := Some ''store down''\<rparr>) = Some ''store down''
   \<and> snd (logout bob_state (client3\<lparr>destroy_err := Some ''store down''\<rparr>)) = Redirect ''/''
   \<and> fst (logout bob_state (client3\<lparr>destroy_err := Some ''store down''\<rparr>))
       = bob_state\<lparr>errlog := errlog bob_state @ [(''Error destroying session:'', ''store down'')]\<rparr>"
proof -
  have inside: "members bob_state client3
     = Render ''members'' (MembersL (of_ascii ''bob42'') [''Cat1.jpg'', ''Cat2.jpg'', ''Cat3.jpg''])"
    by (simp add: members_def req_session_user_def client3_def bob_state_def bob_session_def)
  have ok: "destroy_err client3 = None"
    by (simp add: client3_def)
  have bad: "destroy_err (client3\<lparr>destroy_err := Some ''store down''\<rparr>) = Some ''store down''"
    by simp
  from inside ok bad
    logout_then_members [of bob_state client3]
    logout_then_members [of bob_state "client3\<lparr>destroy_err := Some ''store down''\<rparr>"]
  show ?thesis by blast
qed

text \<open>
  C10. In every state and for every request, also one without a session and one during
  which the store fails, \<^verbatim>\<open>/logout\<close> answers with the redirect to \<^verbatim>\<open>/\<close>, and the
  collection is as it was.
\<close>

theorem logout_always_redirects:
  "snd (logout st cx) = Redirect ''/'' \<and> users (fst (logout st cx)) = users st"
  by (simp add: logout_def Let_def session_destroy_def split: option.splits)

text \<open>A logout by a client that has no session.\<close>

theorem logout_always_redirects_witness:
  "req_session_user empty_state anon = None
   \<and> snd (logout empty_state anon) = Redirect ''/''
   \<and> users (fst (logout empty_state anon)) = users empty_state"
proof -
  have "req_session_user empty_state anon = None"
    by (simp add: req_session_user_def anon_def)
  with logout_always_redirects [of empty_state anon] show ?thesis by simp
qed

section \<open>Sessions created by signup\<close>

lemma signup_session:
  assumes "signup_post l st cx nm em pw = Inr (st', Redirect path)"
  shows "\<exists>n. sessions st' (session_id st cx)
           = Some \<lparr>s_id = None, s_name = n, s_email = None, s_user_type = None\<rparr>"
  using assms
  by (auto simp: signup_post_def Let_def set_session_user_def
      split: if_splits sum.splits prod.splits)

text \<open>
  C9. After a successful signup the client's session holds the name only. In every later
  state in which that session record is still the one signup wrote, whatever the collection
  says about the user's role, \<^verbatim>\<open>/admin\<close>, \<^verbatim>\<open>/promote/:id\<close> and \<^verbatim>\<open>/demote/:id\<close>
  answer 403 to that client.
\<close>

theorem signup_session_forbidden:
  assumes "signup_post l st cx nm em pw = Inr (st', Redirect path)"
    and "cookie cx' = Some (session_id st cx)"
    and "sessions st'' (session_id st cx) = sessions st' (session_id st cx)"
  shows "(\<exists>n. req_session_user st'' cx'
              = Some \<lparr>s_id = None, s_name = n, s_email = None, s_user_type = None\<rparr>)
     \<and> admin st'' cx' = StatusSend 403 ''Not authorized''
     \<and> promote l' st'' cx' i = Inr (st'', StatusSend 403 ''Not authorized'')
     \<and> demote l' st'' cx' i = Inr (st'', StatusSend 403 ''Not authorized'')"
proof -
  from signup_session [OF assms(1)] obtain n where
    "sessions st' (session_id st cx)
       = Some \<lparr>s_id = None, s_name = n, s_email = None, s_user_type = None\<rparr>"
    by blast
  with assms(2,3) have "req_session_user st'' cx'
       = Some \<lparr>s_id = None, s_name = n, s_email = None, s_user_type = None\<rparr>"
    by (simp add: req_session_user_def)
  then show ?thesis
    by (simp add: admin_def promote_def demote_def)
qed

text \<open>Alice signs up and her stored role is then set to \<open>admin\<close>: her session is still refused.\<close>

theorem signup_session_forbidden_witness:
  "\<exists>st'. signup_post demo_lib empty_state anon
             (Str (of_ascii ''alice1'')) (Str (of_ascii ''a@x.com'')) (Str (of_ascii ''secret''))
           = Inr (st', Redirect ''/members'')
     \<and> cookie client3 = Some (session_id empty_state anon)
     \<and> map user_type (users (st'\<lparr>users := update_one (users st') (new_oid []) ''admin''\<rparr>))
         = [''admin'']
     \<and> admin (st'\<lparr>users := update_one (users st') (new_oid []) ''admin''\<rparr>) client3
         = StatusSend 403 ''Not authorized''
     \<and> promote demo_lib (st'\<lparr>users := update_one (users st') (new_oid []) ''admin''\<rparr>) client3 bob_id
         = Inr (st'\<lparr>users := update_one (users st') (new_oid []) ''admin''\<rparr>,
                StatusSend 403 ''Not authorized'')
     \<and> demote demo_lib (st'\<lparr>users := update_one (users st') (new_oid []) ''admin''\<rparr>) client3 bob_id
         = Inr (st'\<lparr>users := update_one (users st') (new_oid []) ''admin''\<rparr>,
                StatusSend 403 ''Not authorized'')"
proof -
  have valid: "signup_schema demo_lib
      (Str (of_ascii ''alice1'')) (Str (of_ascii ''a@x.com'')) (Str (of_ascii ''secret''))
      = Inr (of_ascii ''alice1'', of_ascii ''a@x.com'', of_ascii ''secret'')"
    by (simp add: signup_schema_def joi_string_def joi_alphanum_def joi_min_def joi_max_def
        joi_email_rule_def alnum_unit_def demo_lib_def demo_base_def with_bcrypt_def of_ascii_def)
  have new: "find_one (users empty_state) (of_ascii ''a@x.com'') = None"
    by (simp add: find_one_def empty_state_def)
  let ?st' = "empty_state\<lparr>users := users empty_state @
                     [\<lparr>user_id = new_oid (users empty_state), name = of_ascii ''alice1'',
                       email = of_ascii ''a@x.com'',
                       password = bcrypt_hash demo_lib (of_ascii ''secret'') 10 (salt anon),
                       user_type = ''user''\<rparr>],
                    sessions := (sessions empty_state)(session_id empty_state anon \<mapsto>
                       \<lparr>s_id = None, s_name = of_ascii ''alice1'', s_email = None,
                        s_user_type = None\<rparr>)\<rparr>"
  let ?st'' = "?st'\<lparr>users := update_one (users ?st') (new_oid []) ''admin''\<rparr>"
  have up: "signup_post demo_lib empty_state anon
             (Str (of_ascii ''alice1'')) (Str (of_ascii ''a@x.com'')) (Str (of_ascii ''secret''))
           = Inr (?st', Redirect ''/members'')"
    by (rule signup_post_valid [OF valid new])
  have ck: "cookie client3 = Some (session_id empty_state anon)"
    by (simp add: client3_def session_id_def anon_def)
  have role: "map user_type (users ?st'') = [''admin'']"
    by (simp add: empty_state_def)
  have same: "sessions ?st'' (session_id empty_state anon) = sessions ?st' (session_id empty_state anon)"
    by simp
  note forbidden = signup_session_forbidden [OF up ck same, of demo_lib bob_id]
  have a: "admin ?st'' client3 = StatusSend 403 ''Not authorized''"
    by (rule forbidden [THEN conjunct2, THEN conjunct1])
  have p: "promote demo_lib ?st'' client3 bob_id = Inr (?st'', StatusSend 403 ''Not authorized'')"
    by (rule forbidden [THEN conjunct2, THEN conjunct2, THEN conjunct1])
  have d: "demote demo_lib ?st'' client3 bob_id = Inr (?st'', StatusSend 403 ''Not authorized'')"
    by (rule forbidden [THEN conjunct2, THEN conjunct2, THEN conjunct2])
  show ?thesis
    by (rule exI [of _ ?st']) (intro conjI up ck role a p d)
qed

end
